theory Spec2Isabelle
  imports Main "HOL-Library.Sublist" "HOL-Library.Multiset"
begin

section \<open>The robot navigation memory tools of \<open>node/mem0/src/index.ts\<close>\<close>

text \<open>
  The four tool handlers of \<open>index.ts\<close> and the two helpers \<open>addMemory\<close> and
  \<open>searchMemories\<close>, as functions over an explicit world.

  \<^item> A JavaScript string is a \<open>string\<close>; one \<open>char\<close> stands for one code unit, so
    \<open>length\<close>, \<open>take\<close> and list equality are \<open>.length\<close>, \<open>.substring(0, n)\<close> and \<open>===\<close>.
  \<^item> The memory service (\<open>memoryClient\<close>) is not part of the program: it is a parameter,
    a record of three operations over a service state of any type. Each operation
    returns either the error it rejects with (\<open>Inl\<close>) or its value (\<open>Inr\<close>), and the
    next service state.
  \<^item> \<open>console.error\<close> appends to the \<open>console\<close> of the world.
  \<^item> \<open>new Date().toISOString()\<close> is the argument \<open>now\<close> of the handlers that read the clock.
  \<^item> A handler returns \<open>Inr\<close> of its payload, or \<open>Inl\<close> of the error it throws.
  \<^item> \<open>JSON.stringify(v, null, 2)\<close> is not modelled: a payload that the source serialises
    is the structure \<open>v\<close> itself.
\<close>

subsection \<open>Data\<close>

datatype js_error = ServiceError string | TypeError string

record message =
  role :: string
  content :: string

record memory_item =
  memory :: string

record 'sc search_result = memory_item +
  score :: 'sc

record ('s, 'sc) memory_client =
  mc_add :: "message list \<Rightarrow> string \<Rightarrow> 's \<Rightarrow> (js_error + unit) \<times> 's"
  mc_search :: "string \<Rightarrow> string \<Rightarrow> 's \<Rightarrow> (js_error + 'sc search_result list) \<times> 's"
  mc_get_all :: "string \<Rightarrow> nat \<Rightarrow> nat \<Rightarrow> 's \<Rightarrow> (js_error + memory_item list) \<times> 's"

record 's world =
  service :: 's
  console :: "(string \<times> js_error) list"

record metadata =
  location :: "string option"
  timestamp :: "string option"
  environmentalConditions :: "string option"

record 'sc previous_observation =
  observation :: string
  relevance :: 'sc

record 'sc change_report =
  cr_currentObservation :: string
  cr_location :: string
  cr_timestamp :: string
  cr_previousObservations :: "'sc previous_observation list"

record spatial_report =
  spatialMap :: "(string \<times> string list) list"
  locationCount :: nat
  totalObservations :: nat

datatype 'sc payload =
    Text string
  | ChangeReport "'sc change_report"
  | SpatialReport spatial_report

subsection \<open>JavaScript string and value operations used by the handlers\<close>

text \<open>\<open>a || b\<close> on an optional string: \<open>undefined\<close> and the empty string are falsy.\<close>

definition or_default :: "string option \<Rightarrow> string \<Rightarrow> string" where
  "or_default v d = (case v of None \<Rightarrow> d | Some s \<Rightarrow> if s = [] then d else s)"

text \<open>\<open>s.substring(0, n)\<close>: the first \<open>n\<close> code units, the whole string when it is shorter.\<close>

definition substring0 :: "string \<Rightarrow> nat \<Rightarrow> string" where
  "substring0 s n = take n s"

text \<open>\<open>s.includes(t)\<close>: \<open>t\<close> starts at some position of \<open>s\<close>.\<close>

fun includes_str :: "string \<Rightarrow> string \<Rightarrow> bool" where
  "includes_str [] t = (t = [])"
| "includes_str (c # cs) t = (prefix t (c # cs) \<or> includes_str cs t)"

text \<open>\<open>xs.slice(0, n)\<close>.\<close>

definition slice0 :: "'a list \<Rightarrow> nat \<Rightarrow> 'a list" where
  "slice0 xs n = take n xs"

subsection \<open>The helpers\<close>

definition ROBOT_USER_ID :: string where
  "ROBOT_USER_ID = ''navigation-robot''"

text \<open>
  \<open>addMemory\<close> (lines 25-35): the call of \<open>memoryClient.add\<close> is inside \<open>try\<close>; the
  \<open>catch\<close> logs the error and the function returns normally.
\<close>

definition addMemory ::
  "('s, 'sc) memory_client \<Rightarrow> string \<Rightarrow> string \<Rightarrow> 's world \<Rightarrow> (js_error + unit) \<times> 's world" where
  "addMemory mc cont userId w =
     (let messages = [\<lparr>role = ''system'', content = ''Robot navigation memory system''\<rparr>,
                      \<lparr>role = ''user'', content = cont\<rparr>]
      in case mc_add mc messages userId (service w) of
           (Inr u, s') \<Rightarrow> (Inr (), w\<lparr>service := s'\<rparr>)
         | (Inl e, s') \<Rightarrow>
             (Inr (), w\<lparr>service := s', console := console w @ [(''Error adding memory:'', e)]\<rparr>))"

text \<open>
  \<open>searchMemories\<close> (lines 38-46): the results of \<open>memoryClient.search\<close>, or the empty
  list after logging when the call throws.
\<close>

definition searchMemories ::
  "('s, 'sc) memory_client \<Rightarrow> string \<Rightarrow> string \<Rightarrow> 's world
     \<Rightarrow> (js_error + 'sc search_result list) \<times> 's world" where
  "searchMemories mc query userId w =
     (case mc_search mc query userId (service w) of
        (Inr results, s') \<Rightarrow> (Inr results, w\<lparr>service := s'\<rparr>)
      | (Inl e, s') \<Rightarrow>
          (Inr [], w\<lparr>service := s', console := console w @ [(''Error searching memories:'', e)]\<rparr>))"

subsection \<open>store-robot-observation\<close>

text \<open>
  Lines 62-64. A metadata object is truthy whatever its fields; each field falls back
  to its default through \<open>||\<close>.
\<close>

definition formattedObservation :: "string \<Rightarrow> metadata option \<Rightarrow> string \<Rightarrow> string" where
  "formattedObservation obs md now =
     (case md of
        Some m \<Rightarrow>
          ''Observation: '' @ obs
          @ ''\<newline>Location: '' @ or_default (location m) ''unknown''
          @ ''\<newline>Timestamp: '' @ or_default (timestamp m) now
          @ ''\<newline>Conditions: '' @ or_default (environmentalConditions m) ''not specified''
      | None \<Rightarrow> obs)"

definition store_robot_observation ::
  "('s, 'sc) memory_client \<Rightarrow> string \<Rightarrow> metadata option \<Rightarrow> string \<Rightarrow> string \<Rightarrow> 's world
     \<Rightarrow> (js_error + 'sc payload) \<times> 's world" where
  "store_robot_observation mc obs md userId now w =
     (case addMemory mc (formattedObservation obs md now) userId w of
        (Inl e, w') \<Rightarrow> (Inl e, w')
      | (Inr u, w') \<Rightarrow> (Inr (Text ''Robot observation stored successfully''), w'))"

subsection \<open>search-robot-observations\<close>

text \<open>\<open>xs.join(sep)\<close>.\<close>

fun join :: "string list \<Rightarrow> string \<Rightarrow> string" where
  "join [] sep = []"
| "join [x] sep = x"
| "join (x # y # ys) sep = x @ sep @ join (y # ys) sep"

text \<open>
  Lines 85-98. The text that a template literal gives a score is the parameter
  \<open>show_score\<close>. The empty string is falsy, so \<open>formattedResults || ...\<close> is the
  literal exactly when the joined text is empty.
\<close>

definition search_robot_observations ::
  "('s, 'sc) memory_client \<Rightarrow> ('sc \<Rightarrow> string) \<Rightarrow> string \<Rightarrow> string \<Rightarrow> 's world
     \<Rightarrow> (js_error + 'sc payload) \<times> 's world" where
  "search_robot_observations mc show_score query userId w =
     (case searchMemories mc query userId w of
        (Inl e, w') \<Rightarrow> (Inl e, w')
      | (Inr results, w') \<Rightarrow>
          (let formattedResults =
                 join (map (\<lambda>result. ''Observation: '' @ memory result
                                      @ ''\<newline>Relevance: '' @ show_score (score result)
                                      @ ''\<newline>---'') results) ''\<newline>''
           in (Inr (Text (if formattedResults = [] then ''No relevant observations found''
                          else formattedResults)), w')))"

subsection \<open>detect-environment-changes\<close>

text \<open>Lines 121-123: the results that stay after the filter.\<close>

definition previousObservations ::
  "string \<Rightarrow> 'sc search_result list \<Rightarrow> 'sc search_result list" where
  "previousObservations currentObservation results =
     filter (\<lambda>result. \<not> includes_str (memory result) (substring0 currentObservation 50)) results"

text \<open>Lines 110-154.\<close>

definition detect_environment_changes ::
  "('s, 'sc) memory_client \<Rightarrow> string \<Rightarrow> string \<Rightarrow> string \<Rightarrow> string \<Rightarrow> 's world
     \<Rightarrow> (js_error + 'sc payload) \<times> 's world" where
  "detect_environment_changes mc currentObservation loc userId now w =
     (let formatted = ''Observation: '' @ currentObservation
                      @ ''\<newline>Location: '' @ loc
                      @ ''\<newline>Timestamp: '' @ now
      in case addMemory mc formatted userId w of
           (Inl e, w1) \<Rightarrow> (Inl e, w1)
         | (Inr u, w1) \<Rightarrow>
             (let query = ''What did I previously observe at location '' @ loc @ ''?''
              in case searchMemories mc query userId w1 of
                   (Inl e, w2) \<Rightarrow> (Inl e, w2)
                 | (Inr results, w2) \<Rightarrow>
                     (let prev = previousObservations currentObservation results
                      in if length prev = 0
                         then (Inr (Text (''No previous observations found at '' @ loc
                                          @ ''. This is new territory.'')), w2)
                         else (Inr (ChangeReport
                                 \<lparr>cr_currentObservation = currentObservation,
                                  cr_location = loc,
                                  cr_timestamp = now,
                                  cr_previousObservations =
                                    map (\<lambda>result. \<lparr>observation = memory result,
                                                    relevance = score result\<rparr>)
                                        (slice0 prev 2)\<rparr>), w2))))"

subsection \<open>build-spatial-map\<close>

text \<open>
  The regular expression \<open>/Location: ([^\n]+)/i\<close> of line 176. With the flag \<open>i\<close> and
  without the flag \<open>u\<close>, two code units match when their canonical forms (the upper
  case) are equal, and the canonical form of a code unit outside ASCII is never an
  ASCII one: against the pattern's characters, only the ASCII letters fold.
\<close>

definition canonicalize :: "char \<Rightarrow> char" where
  "canonicalize c =
     (let n = (of_char c :: nat) in if 97 \<le> n \<and> n \<le> 122 then char_of (n - 32) else c)"

text \<open>The literal part of the pattern at the start of a string; the result is what follows it.\<close>

fun match_literal :: "string \<Rightarrow> string \<Rightarrow> string option" where
  "match_literal [] s = Some s"
| "match_literal (p # ps) [] = None"
| "match_literal (p # ps) (c # cs) =
     (if canonicalize p = canonicalize c then match_literal ps cs else None)"

text \<open>
  The whole pattern at the start of a string: the literal, then the longest run of
  code units other than line feed, which must not be empty. The result is the group.
\<close>

definition match_at :: "string \<Rightarrow> string option" where
  "match_at s =
     (case match_literal ''Location: '' s of
        None \<Rightarrow> None
      | Some rest \<Rightarrow>
          (let g = takeWhile (\<lambda>c. c \<noteq> CHR 0x0A) rest in if g = [] then None else Some g))"

text \<open>\<open>memory.match(...)\<close>: the start positions are tried from left to right.\<close>

fun location_match :: "string \<Rightarrow> string option" where
  "location_match [] = match_at []"
| "location_match (c # cs) =
     (case match_at (c # cs) of Some g \<Rightarrow> Some g | None \<Rightarrow> location_match cs)"

text \<open>Lines 175-179.\<close>

definition extract_location :: "string \<Rightarrow> string" where
  "extract_location mem =
     (case location_match mem of
        Some g \<Rightarrow> if g \<noteq> [] then g else ''unknown''
      | None \<Rightarrow> ''unknown'')"

text \<open>
  \<open>locationMap\<close> is an object literal: its own properties are an association list in
  insertion order. The list gives the keys and the value of each key; it does not give
  the order in which JavaScript enumerates them when the object is serialised
  (integer-like keys come first there, in ascending order), and no statement below
  reads that order. Reading a key that is not an own property finds the properties of
  \<open>Object.prototype\<close>, all of them truthy and none an array.
\<close>

definition object_prototype_keys :: "string list" where
  "object_prototype_keys =
     [''constructor'', ''__defineGetter__'', ''__defineSetter__'', ''hasOwnProperty'',
      ''__lookupGetter__'', ''__lookupSetter__'', ''isPrototypeOf'', ''propertyIsEnumerable'',
      ''toString'', ''valueOf'', ''__proto__'', ''toLocaleString'']"

datatype js_property = Own "string list" | Inherited | Undefined

definition get_property :: "(string \<times> string list) list \<Rightarrow> string \<Rightarrow> js_property" where
  "get_property obj k =
     (case map_of obj k of
        Some v \<Rightarrow> Own v
      | None \<Rightarrow> if k \<in> set object_prototype_keys then Inherited else Undefined)"

fun set_property ::
  "(string \<times> string list) list \<Rightarrow> string \<Rightarrow> string list \<Rightarrow> (string \<times> string list) list" where
  "set_property [] k v = [(k, v)]"
| "set_property ((k', v') # obj) k v =
     (if k' = k then (k', v) # obj else (k', v') # set_property obj k v)"

text \<open>
  The body of the \<open>forEach\<close> (lines 171-186). \<open>push\<close> on a value that is not an array
  (an inherited property) throws a \<open>TypeError\<close>.
\<close>

definition group_memory ::
  "memory_item \<Rightarrow> (string \<times> string list) list \<Rightarrow> js_error + (string \<times> string list) list" where
  "group_memory memoryItem locationMap =
     (let mem = memory memoryItem;
          loc = extract_location mem;
          locationMap1 = (if get_property locationMap loc = Undefined
                          then set_property locationMap loc [] else locationMap)
      in case get_property locationMap1 loc of
           Own arr \<Rightarrow> Inr (set_property locationMap1 loc (arr @ [mem]))
         | Inherited \<Rightarrow> Inl (TypeError ''locationMap[location].push is not a function'')
         | Undefined \<Rightarrow> Inl (TypeError ''Cannot read properties of undefined''))"

fun forEach_memory ::
  "memory_item list \<Rightarrow> (string \<times> string list) list \<Rightarrow> js_error + (string \<times> string list) list" where
  "forEach_memory [] locationMap = Inr locationMap"
| "forEach_memory (memoryItem # rest) locationMap =
     (case group_memory memoryItem locationMap of
        Inl e \<Rightarrow> Inl e
      | Inr locationMap' \<Rightarrow> forEach_memory rest locationMap')"

text \<open>
  Lines 163-211. Everything is inside \<open>try\<close>: a rejected listing and a throwing
  \<open>forEach\<close> both end in the \<open>catch\<close>, which logs and returns the error text.
\<close>

definition build_spatial_map ::
  "('s, 'sc) memory_client \<Rightarrow> string \<Rightarrow> 's world \<Rightarrow> (js_error + 'sc payload) \<times> 's world" where
  "build_spatial_map mc userId w =
     (case mc_get_all mc userId 1 50 (service w) of
        (Inl e, s') \<Rightarrow>
          (Inr (Text ''Error building spatial map. Please try again.''),
           w\<lparr>service := s', console := console w @ [(''Error building spatial map:'', e)]\<rparr>)
      | (Inr results, s') \<Rightarrow>
          (case forEach_memory results [] of
             Inl e \<Rightarrow>
               (Inr (Text ''Error building spatial map. Please try again.''),
                w\<lparr>service := s', console := console w @ [(''Error building spatial map:'', e)]\<rparr>)
           | Inr locationMap \<Rightarrow>
               (Inr (SpatialReport
                       \<lparr>spatialMap = locationMap,
                        locationCount = length locationMap,
                        totalObservations = length results\<rparr>),
                w\<lparr>service := s'\<rparr>)))"

subsection \<open>Reference definitions for the statements\<close>

text \<open>The two messages that \<open>addMemory\<close> sends for a content string.\<close>

definition user_messages :: "string \<Rightarrow> message list" where
  "user_messages cont =
     [\<lparr>role = ''system'', content = ''Robot navigation memory system''\<rparr>,
      \<lparr>role = ''user'', content = cont\<rparr>]"

text \<open>The four-line block of the specification, every value substituted as given.\<close>

definition canonical_block :: "string \<Rightarrow> string \<Rightarrow> string \<Rightarrow> string \<Rightarrow> string" where
  "canonical_block txt loc ts conds =
     ''Observation: '' @ txt @ ''\<newline>Location: '' @ loc @ ''\<newline>Timestamp: '' @ ts
     @ ''\<newline>Conditions: '' @ conds"

text \<open>
  A memory service for closed instances: it answers \<open>add\<close> and \<open>search\<close> with fixed
  outcomes, serves \<open>get_all\<close> from a fixed store by page, and keeps the list of the
  requests it has received as its state.
\<close>

datatype request =
    AddRequest "message list" string
  | SearchRequest string string
  | GetAllRequest string nat nat

definition fake_client ::
  "(js_error + unit) \<Rightarrow> (js_error + 'sc search_result list) \<Rightarrow> (string \<Rightarrow> memory_item list)
     \<Rightarrow> (request list, 'sc) memory_client" where
  "fake_client add_outcome search_outcome stored =
     \<lparr>mc_add = (\<lambda>messages userId s. (add_outcome, s @ [AddRequest messages userId])),
      mc_search = (\<lambda>query userId s. (search_outcome, s @ [SearchRequest query userId])),
      mc_get_all = (\<lambda>userId page page_size s.
         (Inr (take page_size (drop ((page - 1) * page_size) (stored userId))),
          s @ [GetAllRequest userId page page_size]))\<rparr>"

text \<open>
  The contract of a paginating memory service: whenever a listing request succeeds,
  its results are the requested page (pages counted from 1) of the entries that the
  service stores for the user, given by \<open>stored\<close> as a view of the service state.
\<close>

definition paginates ::
  "('s, 'sc) memory_client \<Rightarrow> ('s \<Rightarrow> string \<Rightarrow> memory_item list) \<Rightarrow> bool" where
  "paginates mc stored =
     (\<forall>userId page page_size s results.
        fst (mc_get_all mc userId page page_size s) = Inr results
        \<longrightarrow> results = take page_size (drop ((page - 1) * page_size) (stored s userId)))"

text \<open>
  The pattern of line 176 matches at position \<open>j\<close> of a text: the ten code units from
  \<open>j\<close> are "Location: " up to the case of ASCII letters, and the code unit after them
  exists and is not a line feed (the group needs at least one).
\<close>

definition pattern_matches_at :: "string \<Rightarrow> nat \<Rightarrow> bool" where
  "pattern_matches_at m j =
     (j + 11 \<le> length m
      \<and> map canonicalize (take 10 (drop j m)) = map canonicalize ''Location: ''
      \<and> m ! (j + 10) \<noteq> CHR 0x0A)"

text \<open>
  The location key as the specification words it: the first group of the first match,
  with the white space around it removed, or "unknown".
\<close>

definition is_whitespace :: "char \<Rightarrow> bool" where
  "is_whitespace c =
     (c \<in> set [CHR 0x09, CHR 0x0A, CHR 0x0B, CHR 0x0C, CHR 0x0D, CHR 0x20, CHR 0xA0])"

definition trim :: "string \<Rightarrow> string" where
  "trim s = rev (dropWhile is_whitespace (rev (dropWhile is_whitespace s)))"

definition spec_location_key :: "string \<Rightarrow> string" where
  "spec_location_key mem =
     (case location_match mem of Some g \<Rightarrow> trim g | None \<Rightarrow> ''unknown'')"

section \<open>Properties\<close>

subsection \<open>The helpers never throw\<close>

lemma addMemory_returns: "fst (addMemory mc cont userId w) = Inr ()"
  by (simp add: addMemory_def split: prod.split sum.split)

lemma addMemory_service:
  "service (snd (addMemory mc cont userId w))
     = snd (mc_add mc (user_messages cont) userId (service w))"
  by (simp add: addMemory_def user_messages_def split: prod.split sum.split)

lemma addMemory_console:
  "console (snd (addMemory mc cont userId w)) =
     (case fst (mc_add mc (user_messages cont) userId (service w)) of
        Inl e \<Rightarrow> console w @ [(''Error adding memory:'', e)]
      | Inr u \<Rightarrow> console w)"
  by (simp add: addMemory_def user_messages_def split: prod.split sum.split)

lemma searchMemories_returns:
  "fst (searchMemories mc query userId w) =
     (case fst (mc_search mc query userId (service w)) of Inl e \<Rightarrow> Inr [] | Inr rs \<Rightarrow> Inr rs)"
  by (simp add: searchMemories_def split: prod.split sum.split)

lemma searchMemories_console:
  "console (snd (searchMemories mc query userId w)) =
     (case fst (mc_search mc query userId (service w)) of
        Inl e \<Rightarrow> console w @ [(''Error searching memories:'', e)]
      | Inr rs \<Rightarrow> console w)"
  by (simp add: searchMemories_def split: prod.split sum.split)

lemma store_result:
  "store_robot_observation mc obs md userId now w =
     (Inr (Text ''Robot observation stored successfully''),
      snd (addMemory mc (formattedObservation obs md now) userId w))"
proof (cases "addMemory mc (formattedObservation obs md now) userId w")
  case (Pair r w')
  with addMemory_returns [of mc "formattedObservation obs md now" userId w]
  have "r = Inr ()" by simp
  with Pair show ?thesis by (simp add: store_robot_observation_def)
qed

subsection \<open>store-robot-observation\<close>

text \<open>
  C4: for every observation, metadata and user, store-robot-observation returns the
  text "Robot observation stored successfully" and does not throw; the storing helper
  itself always returns normally; and when the memory service's add fails with an
  error, that error is logged on the console and nothing else tells the failure from
  a success.
\<close>

theorem store_never_throws:
  "fst (store_robot_observation mc obs md userId now w)
     = Inr (Text ''Robot observation stored successfully'')
   \<and> fst (addMemory mc cont userId w) = Inr ()
   \<and> (\<forall>e. fst (mc_add mc (user_messages (formattedObservation obs md now)) userId (service w))
            = Inl e
        \<longrightarrow> console (snd (store_robot_observation mc obs md userId now w))
              = console w @ [(''Error adding memory:'', e)])"
  by (simp add: store_result addMemory_returns addMemory_console)

theorem store_never_throws_witness:
  "fst (mc_add (fake_client (Inl (ServiceError ''503'')) (Inr []) (\<lambda>u. [])
                  :: (request list, nat) memory_client)
         (user_messages (formattedObservation ''a red chair'' None ''2024-05-01T10:00:00.000Z''))
         ''navigation-robot'' []) = Inl (ServiceError ''503'')
   \<and> fst (store_robot_observation
            (fake_client (Inl (ServiceError ''503'')) (Inr []) (\<lambda>u. [])
               :: (request list, nat) memory_client)
            ''a red chair'' None ''navigation-robot'' ''2024-05-01T10:00:00.000Z''
            \<lparr>service = [], console = []\<rparr>)
       = Inr (Text ''Robot observation stored successfully'')
   \<and> console (snd (store_robot_observation
            (fake_client (Inl (ServiceError ''503'')) (Inr []) (\<lambda>u. [])
               :: (request list, nat) memory_client)
            ''a red chair'' None ''navigation-robot'' ''2024-05-01T10:00:00.000Z''
            \<lparr>service = [], console = []\<rparr>))
       = [(''Error adding memory:'', ServiceError ''503'')]"
  using store_never_throws [of
      "fake_client (Inl (ServiceError ''503'')) (Inr []) (\<lambda>u. [])
         :: (request list, nat) memory_client"
      "''a red chair''" None "''navigation-robot''" "''2024-05-01T10:00:00.000Z''"
      "\<lparr>service = [], console = []\<rparr>"]
  by (simp add: fake_client_def)

text \<open>
  C8: with a metadata object that has none of its three fields, the stored string is
  the four-line block filled with the defaults "unknown", the current time and
  "not specified", and that block is what the memory service's add receives; without
  a metadata object the stored string is the observation itself; with any metadata
  object it is never the observation itself.
\<close>

theorem empty_metadata_defaults:
  "formattedObservation obs
       (Some \<lparr>location = None, timestamp = None, environmentalConditions = None\<rparr>) now
     = ''Observation: '' @ obs @ ''\<newline>Location: unknown\<newline>Timestamp: '' @ now
       @ ''\<newline>Conditions: not specified''
   \<and> formattedObservation obs None now = obs
   \<and> formattedObservation obs (Some m) now \<noteq> obs
   \<and> service (snd (store_robot_observation mc obs
         (Some \<lparr>location = None, timestamp = None, environmentalConditions = None\<rparr>) userId now w))
     = snd (mc_add mc (user_messages (''Observation: '' @ obs
               @ ''\<newline>Location: unknown\<newline>Timestamp: '' @ now
               @ ''\<newline>Conditions: not specified'')) userId (service w))"
proof -
  have "length (formattedObservation obs (Some m) now) > length obs"
    by (simp add: formattedObservation_def)
  then have "formattedObservation obs (Some m) now \<noteq> obs"
    by auto
  then show ?thesis
    by (simp add: store_result addMemory_service) (simp add: formattedObservation_def or_default_def)
qed

subsection \<open>search-robot-observations and detect-environment-changes\<close>


lemma includes_str_sublist: "includes_str s t = sublist t s"
  by (induction s) (simp_all add: sublist_Cons_right)

lemma search_result:
  "fst (search_robot_observations mc show_score query userId w) =
     Inr (Text (case fst (searchMemories mc query userId w) of
                  Inr [] \<Rightarrow> ''No relevant observations found''
                | Inr (r # rs) \<Rightarrow>
                    join (map (\<lambda>result. ''Observation: '' @ memory result
                                      @ ''\<newline>Relevance: '' @ show_score (score result)
                                      @ ''\<newline>---'') (r # rs)) ''\<newline>''
                | Inl e \<Rightarrow> []))"
proof (cases "searchMemories mc query userId w")
  case (Pair r w')
  with searchMemories_returns [of mc query userId w]
  obtain rs where r: "r = Inr rs" by (auto split: sum.splits)
  show ?thesis
  proof (cases rs)
    case Nil
    with Pair r show ?thesis by (simp add: search_robot_observations_def)
  next
    case (Cons x xs)
    then have "join (map (\<lambda>result. ''Observation: '' @ memory result
                                      @ ''\<newline>Relevance: '' @ show_score (score result)
                                      @ ''\<newline>---'') rs) ''\<newline>'' \<noteq> []"
      by (cases xs) simp_all
    with Pair r Cons show ?thesis by (simp add: search_robot_observations_def Let_def)
  qed
qed

text \<open>
  C5: when the memory service's search fails, the retrieval helper returns the empty
  list (the error goes to the console, not to the caller), and
  search-robot-observations returns the text "No relevant observations found".
\<close>

theorem search_failure_is_empty:
  "fst (mc_search mc query userId (service w)) = Inl e \<Longrightarrow>
     fst (searchMemories mc query userId w) = Inr []
   \<and> fst (search_robot_observations mc show_score query userId w)
       = Inr (Text ''No relevant observations found'')
   \<and> console (snd (searchMemories mc query userId w))
       = console w @ [(''Error searching memories:'', e)]"
  by (simp add: search_result searchMemories_returns searchMemories_console)

theorem search_failure_is_empty_witness:
  "fst (mc_search (fake_client (Inr ()) (Inl (ServiceError ''timeout'')) (\<lambda>u. [])
                     :: (request list, nat) memory_client)
          ''Where is the chair?'' ''navigation-robot'' []) = Inl (ServiceError ''timeout'')
   \<and> fst (search_robot_observations
            (fake_client (Inr ()) (Inl (ServiceError ''timeout'')) (\<lambda>u. [])
               :: (request list, nat) memory_client)
            (\<lambda>n. ''0'') ''Where is the chair?'' ''navigation-robot''
            \<lparr>service = [], console = []\<rparr>)
       = Inr (Text ''No relevant observations found'')"
  using search_failure_is_empty [of
      "fake_client (Inr ()) (Inl (ServiceError ''timeout'')) (\<lambda>u. [])
         :: (request list, nat) memory_client"
      "''Where is the chair?''" "''navigation-robot''" "\<lparr>service = [], console = []\<rparr>"
      "ServiceError ''timeout''" "\<lambda>n. ''0''"]
  by (simp add: fake_client_def)

lemma detect_result:
  "fst (detect_environment_changes mc cur loc userId now w) =
     (case fst (searchMemories mc (''What did I previously observe at location '' @ loc @ ''?'')
                  userId
                  (snd (addMemory mc (''Observation: '' @ cur @ ''\<newline>Location: '' @ loc
                                      @ ''\<newline>Timestamp: '' @ now) userId w))) of
        Inl e \<Rightarrow> Inl e
      | Inr results \<Rightarrow>
          if previousObservations cur results = []
          then Inr (Text (''No previous observations found at '' @ loc
                          @ ''. This is new territory.''))
          else Inr (ChangeReport
                 \<lparr>cr_currentObservation = cur, cr_location = loc, cr_timestamp = now,
                  cr_previousObservations =
                    map (\<lambda>result. \<lparr>observation = memory result, relevance = score result\<rparr>)
                        (take 2 (previousObservations cur results))\<rparr>))"
proof (cases "addMemory mc (''Observation: '' @ cur @ ''\<newline>Location: '' @ loc
                                      @ ''\<newline>Timestamp: '' @ now) userId w")
  case (Pair r w1)
  with addMemory_returns [of mc _ userId w] have r: "r = Inr ()"
    by (metis fst_conv)
  show ?thesis
    using Pair r
    by (simp add: detect_environment_changes_def Let_def slice0_def split: prod.split sum.split)
qed

lemma previousObservations_Nil: "previousObservations [] results = []"
  by (simp add: previousObservations_def substring0_def includes_str_sublist)

text \<open>
  C9: with the empty string as current observation, whatever the memory service holds
  and answers, detect-environment-changes returns the message
  "No previous observations found at <location>. This is new territory.".
\<close>

theorem empty_observation_new_territory:
  "fst (detect_environment_changes mc [] loc userId now w)
     = Inr (Text (''No previous observations found at '' @ loc @ ''. This is new territory.''))"
  by (simp add: detect_result searchMemories_returns previousObservations_Nil split: sum.split)

text \<open>
  C3: the results that stay in \<open>previousObservations\<close> are, in order, those whose memory
  does not contain the first min(50, length) characters of the current observation as
  a contiguous substring; for a current observation shorter than 50 characters that
  comparison string is the whole observation.
\<close>

theorem filter_drops_prefix_matches:
  "previousObservations cur results
     = filter (\<lambda>r. \<not> (\<exists>ps ss. memory r = ps @ take (min 50 (length cur)) cur @ ss)) results
   \<and> (length cur < 50 \<longrightarrow> take (min 50 (length cur)) cur = cur)"
proof -
  have "take (min 50 (length cur)) cur = take 50 cur"
    by (simp add: min_def)
  then show ?thesis
    by (simp add: previousObservations_def substring0_def includes_str_sublist sublist_def)
qed


theorem filter_drops_prefix_matches_witness:
  "length ''a plant'' < 50
   \<and> take (min 50 (length ''a plant'')) ''a plant'' = ''a plant''
   \<and> previousObservations ''a plant''
        [\<lparr>memory = ''Observation: a plant by the door'', score = 9::nat\<rparr>,
         \<lparr>memory = ''a lamp'', score = 7\<rparr>]
       = [\<lparr>memory = ''a lamp'', score = 7\<rparr>]"
  using filter_drops_prefix_matches [of "''a plant''"
      "[\<lparr>memory = ''Observation: a plant by the door'', score = 9::nat\<rparr>,
        \<lparr>memory = ''a lamp'', score = 7\<rparr>]"]
  by (simp add: previousObservations_def substring0_def)

text \<open>
  C6: when at least two results stay after the filter, the report's previous
  observations are exactly the first and the second of them, in that order, and the
  filtered list keeps the order in which recall returned the results.
\<close>

theorem report_first_two:
  assumes "fst (searchMemories mc (''What did I previously observe at location '' @ loc @ ''?'')
                  userId
                  (snd (addMemory mc (''Observation: '' @ cur @ ''\<newline>Location: '' @ loc
                                      @ ''\<newline>Timestamp: '' @ now) userId w)))
             = Inr results"
      and "2 \<le> length (previousObservations cur results)"
  shows "fst (detect_environment_changes mc cur loc userId now w)
           = Inr (ChangeReport
                \<lparr>cr_currentObservation = cur, cr_location = loc, cr_timestamp = now,
                 cr_previousObservations =
                   [\<lparr>observation = memory (previousObservations cur results ! 0),
                     relevance = score (previousObservations cur results ! 0)\<rparr>,
                    \<lparr>observation = memory (previousObservations cur results ! 1),
                     relevance = score (previousObservations cur results ! 1)\<rparr>]\<rparr>)
         \<and> subseq (previousObservations cur results) results"
proof -
  from assms(2) obtain a b rest where prev: "previousObservations cur results = a # b # rest"
    by (cases "previousObservations cur results"; cases "tl (previousObservations cur results)")
       auto
  have "subseq (previousObservations cur results) results"
    by (simp add: previousObservations_def)
  with assms(1) prev show ?thesis
    by (simp add: detect_result)
qed

theorem report_first_two_witness:
  "fst (detect_environment_changes
          (fake_client (Inr ())
             (Inr [\<lparr>memory = ''Observation: a plant\<newline>Location: hall'', score = 9::nat\<rparr>,
                   \<lparr>memory = ''a lamp'', score = 7\<rparr>,
                   \<lparr>memory = ''a table'', score = 5\<rparr>,
                   \<lparr>memory = ''a rug'', score = 3\<rparr>]) (\<lambda>u. []))
          ''a plant'' ''hall'' ''navigation-robot'' ''2024-05-01T10:00:00.000Z''
          \<lparr>service = [], console = []\<rparr>)
     = Inr (ChangeReport
          \<lparr>cr_currentObservation = ''a plant'', cr_location = ''hall'',
           cr_timestamp = ''2024-05-01T10:00:00.000Z'',
           cr_previousObservations =
             [\<lparr>observation = ''a lamp'', relevance = 7\<rparr>,
              \<lparr>observation = ''a table'', relevance = 5\<rparr>]\<rparr>)"
proof -
  let ?rs = "[\<lparr>memory = ''Observation: a plant\<newline>Location: hall'', score = 9::nat\<rparr>,
              \<lparr>memory = ''a lamp'', score = 7\<rparr>,
              \<lparr>memory = ''a table'', score = 5\<rparr>,
              \<lparr>memory = ''a rug'', score = 3\<rparr>]"
  let ?mc = "fake_client (Inr ()) (Inr ?rs) (\<lambda>u. [])"
  have prev: "previousObservations ''a plant'' ?rs
                = [\<lparr>memory = ''a lamp'', score = 7\<rparr>, \<lparr>memory = ''a table'', score = 5\<rparr>,
                   \<lparr>memory = ''a rug'', score = 3\<rparr>]"
    by (simp add: previousObservations_def substring0_def)
  have recall: "fst (searchMemories ?mc
                  (''What did I previously observe at location '' @ ''hall'' @ ''?'')
                  ''navigation-robot''
                  (snd (addMemory ?mc (''Observation: '' @ ''a plant'' @ ''\<newline>Location: ''
                                       @ ''hall'' @ ''\<newline>Timestamp: ''
                                       @ ''2024-05-01T10:00:00.000Z'')
                          ''navigation-robot'' \<lparr>service = [], console = []\<rparr>)))
             = Inr ?rs"
    by (simp add: searchMemories_returns fake_client_def)
  have two: "2 \<le> length (previousObservations ''a plant'' ?rs)"
    by (simp add: prev)
  from report_first_two [OF recall two] show ?thesis
    by (simp add: prev)
qed

subsection \<open>The forwarded block\<close>

text \<open>
  C1 as stated fails: a location that is present but empty is replaced by "unknown",
  so what the memory service receives is not the block with the supplied values.
\<close>

theorem forwarded_block_counterexample:
  "service (snd (store_robot_observation
       (fake_client (Inr ()) (Inr []) (\<lambda>u. []) :: (request list, nat) memory_client)
       ''door open''
       (Some \<lparr>location = Some [], timestamp = Some ''2024-05-01T10:00:00.000Z'',
              environmentalConditions = Some ''dim''\<rparr>)
       ''navigation-robot'' ''2026-01-01T00:00:00.000Z'' \<lparr>service = [], console = []\<rparr>))
   \<noteq> [AddRequest
        (user_messages (canonical_block ''door open'' [] ''2024-05-01T10:00:00.000Z'' ''dim''))
        ''navigation-robot'']"
  by (simp add: store_result addMemory_service fake_client_def user_messages_def
        canonical_block_def formattedObservation_def or_default_def)

text \<open>
  C1, amended: when the three metadata fields are present and none is the empty
  string, the string that the memory service's add receives is the four-line block
  with the supplied values, whatever the current time. A field supplied as the empty
  string is treated like an absent one and takes its default: with the three fields
  present, the string that add receives is the block in which each empty value is
  replaced by "unknown", the current time or "not specified", and giving a field the
  empty string forwards the same string as leaving that field out.
\<close>

theorem forwarded_block_nonempty_fields:
  "(l \<noteq> [] \<and> t \<noteq> [] \<and> c \<noteq> [] \<longrightarrow>
      formattedObservation obs
        (Some \<lparr>location = Some l, timestamp = Some t, environmentalConditions = Some c\<rparr>) now
        = canonical_block obs l t c
      \<and> service (snd (store_robot_observation mc obs
           (Some \<lparr>location = Some l, timestamp = Some t, environmentalConditions = Some c\<rparr>)
           userId now w))
        = snd (mc_add mc (user_messages (canonical_block obs l t c)) userId (service w)))
   \<and> formattedObservation obs
        (Some \<lparr>location = Some l, timestamp = Some t, environmentalConditions = Some c\<rparr>) now
        = canonical_block obs (if l = [] then ''unknown'' else l) (if t = [] then now else t)
            (if c = [] then ''not specified'' else c)
   \<and> service (snd (store_robot_observation mc obs
        (Some \<lparr>location = Some l, timestamp = Some t, environmentalConditions = Some c\<rparr>)
        userId now w))
        = snd (mc_add mc
                 (user_messages
                    (canonical_block obs (if l = [] then ''unknown'' else l)
                       (if t = [] then now else t) (if c = [] then ''not specified'' else c)))
                 userId (service w))
   \<and> formattedObservation obs (Some (m\<lparr>location := Some []\<rparr>)) now
        = formattedObservation obs (Some (m\<lparr>location := None\<rparr>)) now
   \<and> formattedObservation obs (Some (m\<lparr>timestamp := Some []\<rparr>)) now
        = formattedObservation obs (Some (m\<lparr>timestamp := None\<rparr>)) now
   \<and> formattedObservation obs (Some (m\<lparr>environmentalConditions := Some []\<rparr>)) now
        = formattedObservation obs (Some (m\<lparr>environmentalConditions := None\<rparr>)) now"
proof -
  have block: "formattedObservation obs
        (Some \<lparr>location = Some l, timestamp = Some t, environmentalConditions = Some c\<rparr>) now
        = canonical_block obs (if l = [] then ''unknown'' else l) (if t = [] then now else t)
            (if c = [] then ''not specified'' else c)"
    by (simp add: formattedObservation_def or_default_def canonical_block_def)
  have absent:
    "formattedObservation obs (Some (m\<lparr>location := Some []\<rparr>)) now
       = formattedObservation obs (Some (m\<lparr>location := None\<rparr>)) now"
    "formattedObservation obs (Some (m\<lparr>timestamp := Some []\<rparr>)) now
       = formattedObservation obs (Some (m\<lparr>timestamp := None\<rparr>)) now"
    "formattedObservation obs (Some (m\<lparr>environmentalConditions := Some []\<rparr>)) now
       = formattedObservation obs (Some (m\<lparr>environmentalConditions := None\<rparr>)) now"
    by (simp_all add: formattedObservation_def or_default_def)
  from block absent show ?thesis
    by (simp add: store_result addMemory_service)
qed

theorem forwarded_block_nonempty_fields_witness:
  "''kitchen'' \<noteq> [] \<and> ''2024-05-01T10:00:00.000Z'' \<noteq> [] \<and> ''dim'' \<noteq> []
   \<and> service (snd (store_robot_observation
       (fake_client (Inr ()) (Inr []) (\<lambda>u. []) :: (request list, nat) memory_client)
       ''door open''
       (Some \<lparr>location = Some ''kitchen'', timestamp = Some ''2024-05-01T10:00:00.000Z'',
              environmentalConditions = Some ''dim''\<rparr>)
       ''navigation-robot'' ''2026-01-01T00:00:00.000Z'' \<lparr>service = [], console = []\<rparr>))
     = [AddRequest
          [\<lparr>role = ''system'', content = ''Robot navigation memory system''\<rparr>,
           \<lparr>role = ''user'', content =
              ''Observation: door open\<newline>Location: kitchen\<newline>Timestamp: 2024-05-01T10:00:00.000Z\<newline>Conditions: dim''\<rparr>]
          ''navigation-robot'']
   \<and> service (snd (store_robot_observation
       (fake_client (Inr ()) (Inr []) (\<lambda>u. []) :: (request list, nat) memory_client)
       ''door open''
       (Some \<lparr>location = Some [], timestamp = Some [], environmentalConditions = Some []\<rparr>)
       ''navigation-robot'' ''2026-01-01T00:00:00.000Z'' \<lparr>service = [], console = []\<rparr>))
     = [AddRequest
          [\<lparr>role = ''system'', content = ''Robot navigation memory system''\<rparr>,
           \<lparr>role = ''user'', content =
              ''Observation: door open\<newline>Location: unknown\<newline>Timestamp: 2026-01-01T00:00:00.000Z\<newline>Conditions: not specified''\<rparr>]
          ''navigation-robot'']"
  using forwarded_block_nonempty_fields [of "''kitchen''" "''2024-05-01T10:00:00.000Z''" "''dim''"
      "''door open''" "''2026-01-01T00:00:00.000Z''"
      "fake_client (Inr ()) (Inr []) (\<lambda>u. []) :: (request list, nat) memory_client"
      "''navigation-robot''" "\<lparr>service = [], console = []\<rparr>"]
    forwarded_block_nonempty_fields [of "[]" "[]" "[]"
      "''door open''" "''2026-01-01T00:00:00.000Z''"
      "fake_client (Inr ()) (Inr []) (\<lambda>u. []) :: (request list, nat) memory_client"
      "''navigation-robot''" "\<lparr>service = [], console = []\<rparr>"]
  by (simp add: fake_client_def user_messages_def canonical_block_def)

subsection \<open>build-spatial-map\<close>

lemma set_property_new: "map_of obj k = None \<Longrightarrow> set_property obj k v = obj @ [(k, v)]"
  by (induction obj) (auto split: if_splits)

lemma set_property_last:
  "map_of obj k = None \<Longrightarrow> set_property (obj @ [(k, v)]) k v' = obj @ [(k, v')]"
  by (induction obj) (auto split: if_splits)

lemma set_property_old:
  "map_of obj k = Some a \<Longrightarrow>
     \<exists>l1 l2. obj = l1 @ (k, a) # l2 \<and> map_of l1 k = None
             \<and> set_property obj k v = l1 @ (k, v) # l2"
proof (induction obj)
  case Nil
  then show ?case by simp
next
  case (Cons p obj)
  obtain k' v' where p: "p = (k', v')" by (cases p)
  show ?case
  proof (cases "k' = k")
    case True
    with Cons.prems p have "p # obj = [] @ (k, a) # obj \<and> map_of [] k = None
        \<and> set_property (p # obj) k v = [] @ (k, v) # obj"
      by simp
    then show ?thesis by blast
  next
    case False
    with Cons.prems p have "map_of obj k = Some a" by simp
    from Cons.IH [OF this] obtain l1 l2 where
      "obj = l1 @ (k, a) # l2" "map_of l1 k = None" "set_property obj k v = l1 @ (k, v) # l2"
      by blast
    with False p have "p # obj = (p # l1) @ (k, a) # l2 \<and> map_of (p # l1) k = None
        \<and> set_property (p # obj) k v = (p # l1) @ (k, v) # l2"
      by simp
    then show ?thesis by blast
  qed
qed

lemma group_memory_cases:
  assumes "group_memory it lm = Inr lm'"
  shows "(map_of lm (extract_location (memory it)) = None
          \<and> extract_location (memory it) \<notin> set object_prototype_keys
          \<and> lm' = lm @ [(extract_location (memory it), [memory it])])
       \<or> (\<exists>l1 arr l2. lm = l1 @ (extract_location (memory it), arr) # l2
            \<and> map_of l1 (extract_location (memory it)) = None
            \<and> lm' = l1 @ (extract_location (memory it), arr @ [memory it]) # l2)"
proof (cases "map_of lm (extract_location (memory it))")
  case None
  show ?thesis
  proof (cases "extract_location (memory it) \<in> set object_prototype_keys")
    case True
    with None assms show ?thesis
      by (simp add: group_memory_def get_property_def Let_def)
  next
    case False
    have undefined: "get_property lm (extract_location (memory it)) = Undefined"
      using None False by (simp add: get_property_def)
    have created: "set_property lm (extract_location (memory it)) []
                     = lm @ [(extract_location (memory it), [])]"
      by (rule set_property_new [OF None])
    have own: "get_property (lm @ [(extract_location (memory it), [])])
                 (extract_location (memory it)) = Own []"
      using None by (simp add: get_property_def map_of_append map_add_def)
    have pushed: "set_property (lm @ [(extract_location (memory it), [])])
                    (extract_location (memory it)) [memory it]
                    = lm @ [(extract_location (memory it), [memory it])]"
      by (rule set_property_last [OF None])
    from assms have "lm' = lm @ [(extract_location (memory it), [memory it])]"
      by (simp add: group_memory_def Let_def undefined created own pushed)
    with None False show ?thesis by simp
  qed
next
  case (Some arr)
  with assms have lm': "lm' = set_property lm (extract_location (memory it)) (arr @ [memory it])"
    by (simp add: group_memory_def get_property_def Let_def)
  from set_property_old [OF Some, of "arr @ [memory it]"] lm' show ?thesis
    by blast
qed

lemma group_memory_inv:
  assumes "group_memory it lm = Inr lm'"
      and "distinct (map fst lm)"
      and "\<forall>(k, ms)\<in>set lm. ms \<noteq> [] \<and> (\<forall>m\<in>set ms. extract_location m = k)"
  shows "distinct (map fst lm')
       \<and> (\<forall>(k, ms)\<in>set lm'. ms \<noteq> [] \<and> (\<forall>m\<in>set ms. extract_location m = k))
       \<and> mset (concat (map snd lm')) = add_mset (memory it) (mset (concat (map snd lm)))"
  using group_memory_cases [OF assms(1)]
proof (elim disjE conjE exE)
  assume "map_of lm (extract_location (memory it)) = None"
     and "lm' = lm @ [(extract_location (memory it), [memory it])]"
  with assms(2,3) show ?thesis
    by (auto simp: map_of_eq_None_iff)
next
  fix l1 arr l2
  assume "lm = l1 @ (extract_location (memory it), arr) # l2"
     and "lm' = l1 @ (extract_location (memory it), arr @ [memory it]) # l2"
  with assms(2,3) show ?thesis
    by auto
qed

lemma forEach_memory_inv:
  assumes "forEach_memory items lm = Inr lm'"
      and "distinct (map fst lm)"
      and "\<forall>(k, ms)\<in>set lm. ms \<noteq> [] \<and> (\<forall>m\<in>set ms. extract_location m = k)"
  shows "distinct (map fst lm')
       \<and> (\<forall>(k, ms)\<in>set lm'. ms \<noteq> [] \<and> (\<forall>m\<in>set ms. extract_location m = k))
       \<and> mset (concat (map snd lm')) = mset (map memory items) + mset (concat (map snd lm))"
  using assms
proof (induction items arbitrary: lm)
  case Nil
  then show ?case by simp
next
  case (Cons it items)
  from Cons.prems(1) obtain lm1 where
    step: "group_memory it lm = Inr lm1" and rest: "forEach_memory items lm1 = Inr lm'"
    by (auto split: sum.splits)
  from group_memory_inv [OF step Cons.prems(2,3)] Cons.IH [OF rest]
  show ?case by simp
qed

lemma build_spatial_map_success:
  assumes "fst (build_spatial_map mc userId w) = Inr (SpatialReport r)"
  shows "\<exists>results. fst (mc_get_all mc userId 1 50 (service w)) = Inr results
           \<and> forEach_memory results [] = Inr (spatialMap r)
           \<and> locationCount r = length (spatialMap r)
           \<and> totalObservations r = length results"
  using assms
  by (auto simp: build_spatial_map_def split: prod.splits sum.splits)

lemma build_spatial_map_service:
  "service (snd (build_spatial_map mc userId w)) = snd (mc_get_all mc userId 1 50 (service w))"
  by (simp add: build_spatial_map_def split: prod.splits sum.splits)

text \<open>
  C10: in every successful response of build-spatial-map, the total of observations is
  the sum of the lengths of the lists of the map, the location count is the number of
  distinct keys of the map (no key occurs twice), no list is empty, every text sits
  under the key extracted from it, and the lists together hold exactly the entries of
  the listing, each as often as the listing has it.
\<close>

theorem spatial_report_counts:
  assumes "fst (build_spatial_map mc userId w) = Inr (SpatialReport r)"
  shows "totalObservations r = sum_list (map (\<lambda>(k, ms). length ms) (spatialMap r))
       \<and> locationCount r = card (fst ` set (spatialMap r))
       \<and> distinct (map fst (spatialMap r))
       \<and> (\<forall>(k, ms)\<in>set (spatialMap r). ms \<noteq> [] \<and> (\<forall>m\<in>set ms. extract_location m = k))
       \<and> (\<exists>results. fst (mc_get_all mc userId 1 50 (service w)) = Inr results
             \<and> mset (concat (map snd (spatialMap r))) = mset (map memory results))"
proof -
  from build_spatial_map_success [OF assms] obtain results where
    listing: "fst (mc_get_all mc userId 1 50 (service w)) = Inr results" and
    loop: "forEach_memory results [] = Inr (spatialMap r)" and
    count: "locationCount r = length (spatialMap r)" and
    total: "totalObservations r = length results"
    by blast
  from forEach_memory_inv [OF loop] have
    keys: "distinct (map fst (spatialMap r))" and
    buckets: "\<forall>(k, ms)\<in>set (spatialMap r). ms \<noteq> [] \<and> (\<forall>m\<in>set ms. extract_location m = k)" and
    entries: "mset (concat (map snd (spatialMap r))) = mset (map memory results)"
    by simp_all
  from entries have "length (concat (map snd (spatialMap r))) = length results"
    by (metis length_map size_mset)
  moreover have "(\<lambda>(k, ms). length ms) = length \<circ> snd" for dummy :: "string \<times> string list"
    by auto
  ultimately have "totalObservations r = sum_list (map (\<lambda>(k, ms). length ms) (spatialMap r))"
    using total by (simp add: length_concat split_def comp_def)
  moreover from keys count have "locationCount r = card (fst ` set (spatialMap r))"
    by (metis distinct_card length_map set_map)
  ultimately show ?thesis
    using keys buckets listing entries by blast
qed

theorem spatial_report_counts_witness:
  "fst (build_spatial_map
          (fake_client (Inr ()) (Inr [])
             (\<lambda>u. [\<lparr>memory = ''Location: A\<newline>foo''\<rparr>, \<lparr>memory = ''Location: A\<newline>bar''\<rparr>,
                   \<lparr>memory = ''baz''\<rparr>]) :: (request list, nat) memory_client)
          ''navigation-robot'' \<lparr>service = [], console = []\<rparr>)
     = Inr (SpatialReport
          \<lparr>spatialMap = [(''A'', [''Location: A\<newline>foo'', ''Location: A\<newline>bar'']),
                         (''unknown'', [''baz''])],
           locationCount = 2, totalObservations = 3\<rparr>)
   \<and> (3::nat) = sum_list (map (\<lambda>(k, ms). length ms)
         [(''A'', [''Location: A\<newline>foo'', ''Location: A\<newline>bar'']), (''unknown'', [''baz''])])
   \<and> (2::nat) = card (fst ` set
         [(''A'', [''Location: A\<newline>foo'', ''Location: A\<newline>bar'']), (''unknown'', [''baz''])])"
proof -
  let ?mc = "fake_client (Inr ()) (Inr [])
             (\<lambda>u. [\<lparr>memory = ''Location: A\<newline>foo''\<rparr>, \<lparr>memory = ''Location: A\<newline>bar''\<rparr>,
                   \<lparr>memory = ''baz''\<rparr>]) :: (request list, nat) memory_client"
  let ?r = "\<lparr>spatialMap = [(''A'', [''Location: A\<newline>foo'', ''Location: A\<newline>bar'']),
                         (''unknown'', [''baz''])],
           locationCount = 2, totalObservations = 3\<rparr>"
  have ok: "fst (build_spatial_map ?mc ''navigation-robot'' \<lparr>service = [], console = []\<rparr>)
              = Inr (SpatialReport ?r)"
    by (simp add: build_spatial_map_def fake_client_def group_memory_def get_property_def
          object_prototype_keys_def extract_location_def match_at_def canonicalize_def)
  from spatial_report_counts [OF ok] ok show ?thesis
    by simp
qed

text \<open>
  C7: build-spatial-map sends the memory service one listing request, for page 1 with
  page size 50, and nothing else; for a service that answers a listing request with
  the requested page of what it stores, a successful response counts at most 50
  observations and its map holds exactly the first 50 stored entries, however many
  are stored.
\<close>

theorem spatial_map_single_page:
  "service (snd (build_spatial_map mc userId w)) = snd (mc_get_all mc userId 1 50 (service w))
   \<and> (paginates mc stored \<longrightarrow>
        (\<forall>r. fst (build_spatial_map mc userId w) = Inr (SpatialReport r) \<longrightarrow>
           totalObservations r \<le> 50
           \<and> mset (concat (map snd (spatialMap r)))
               = mset (map memory (take 50 (stored (service w) userId)))))"
proof (intro conjI impI allI)
  show "service (snd (build_spatial_map mc userId w)) = snd (mc_get_all mc userId 1 50 (service w))"
    by (rule build_spatial_map_service)
next
  fix r
  assume pg: "paginates mc stored"
     and ok: "fst (build_spatial_map mc userId w) = Inr (SpatialReport r)"
  from build_spatial_map_success [OF ok] obtain results where
    listing: "fst (mc_get_all mc userId 1 50 (service w)) = Inr results" and
    loop: "forEach_memory results [] = Inr (spatialMap r)" and
    total: "totalObservations r = length results"
    by blast
  from pg have "\<forall>rs. fst (mc_get_all mc userId 1 50 (service w)) = Inr rs
      \<longrightarrow> rs = take 50 (drop ((1 - 1) * 50) (stored (service w) userId))"
    unfolding paginates_def by blast
  with listing have page: "results = take 50 (stored (service w) userId)"
    by simp
  from page total show "totalObservations r \<le> 50" by simp
  from forEach_memory_inv [OF loop] page
  show "mset (concat (map snd (spatialMap r)))
               = mset (map memory (take 50 (stored (service w) userId)))"
    by simp
qed


subsection \<open>The location key\<close>

lemma match_literal_eq:
  "match_literal p s =
     (if length p \<le> length s \<and> map canonicalize (take (length p) s) = map canonicalize p
      then Some (drop (length p) s) else None)"
  by (induction p s rule: match_literal.induct) auto

lemma len_pattern: "length ''Location: '' = 10"
  by simp

lemma match_literal_Location:
  "match_literal ''Location: '' s =
     (if 10 \<le> length s \<and> map canonicalize (take 10 s) = map canonicalize ''Location: ''
      then Some (drop 10 s) else None)"
  unfolding match_literal_eq [of "''Location: ''" s] len_pattern ..

lemma group_nonempty:
  "takeWhile (\<lambda>c. c \<noteq> CHR 0x0A) (drop 10 s) = [] \<longleftrightarrow> \<not> (11 \<le> length s \<and> s ! 10 \<noteq> CHR 0x0A)"
proof (cases "11 \<le> length s")
  case True
  then have "hd (drop 10 s) = s ! 10" "drop 10 s \<noteq> []"
    by (simp_all add: hd_drop_conv_nth)
  with True show ?thesis by (simp add: takeWhile_eq_Nil_iff)
next
  case False
  then have "drop 10 s = []" by simp
  with False show ?thesis by simp
qed

lemma match_at_eq:
  "match_at s =
     (if pattern_matches_at s 0 then Some (takeWhile (\<lambda>c. c \<noteq> CHR 0x0A) (drop 10 s)) else None)"
proof (cases "10 \<le> length s \<and> map canonicalize (take 10 s) = map canonicalize ''Location: ''")
  case False
  then have "match_literal ''Location: '' s = None"
    by (subst match_literal_Location) (rule if_not_P)
  moreover from False have "\<not> pattern_matches_at s 0"
    unfolding pattern_matches_at_def by auto
  ultimately show ?thesis
    by (simp only: match_at_def option.case if_False)
next
  case True
  then have lit: "match_literal ''Location: '' s = Some (drop 10 s)"
    by (subst match_literal_Location) (rule if_P)
  from True have "pattern_matches_at s 0 \<longleftrightarrow> 11 \<le> length s \<and> s ! 10 \<noteq> CHR 0x0A"
    unfolding pattern_matches_at_def by auto
  with group_nonempty [of s] show ?thesis
    unfolding match_at_def lit by (simp add: Let_def)
qed

lemma pattern_matches_at_drop: "pattern_matches_at (drop j m) 0 = pattern_matches_at m j"
proof (cases "j \<le> length m")
  case True
  then have "drop j m ! 10 = m ! (j + 10)" by simp
  moreover have "11 \<le> length (drop j m) \<longleftrightarrow> j + 11 \<le> length m" by auto
  ultimately show ?thesis
    unfolding pattern_matches_at_def by (simp del: list.map)
next
  case False
  then show ?thesis
    unfolding pattern_matches_at_def by (simp del: list.map)
qed

lemma match_at_position:
  "match_at (drop j m) =
     (if pattern_matches_at m j
      then Some (takeWhile (\<lambda>c. c \<noteq> CHR 0x0A) (drop (j + 10) m)) else None)"
proof -
  have "drop 10 (drop j m) = drop (j + 10) m"
    by (simp add: add.commute)
  then show ?thesis
    using match_at_eq [of "drop j m"] by (simp only: pattern_matches_at_drop)
qed

lemma location_match_first:
  "match_at (drop i m) = Some g \<Longrightarrow> \<forall>j<i. match_at (drop j m) = None
     \<Longrightarrow> location_match m = Some g"
proof (induction m arbitrary: i)
  case Nil
  then show ?case by simp
next
  case (Cons c cs)
  show ?case
  proof (cases i)
    case 0
    with Cons.prems(1) show ?thesis by simp
  next
    case (Suc i')
    with Cons.prems(2) have head: "match_at (c # cs) = None" and
      tail: "\<forall>j<i'. match_at (drop j cs) = None"
      by (auto simp: All_less_Suc2)
    from Cons.prems(1) Suc have "match_at (drop i' cs) = Some g" by simp
    from Cons.IH [OF this tail] head show ?thesis by simp
  qed
qed

lemma location_match_none:
  "\<forall>j. match_at (drop j m) = None \<Longrightarrow> location_match m = None"
proof (induction m)
  case Nil
  then show ?case by simp
next
  case (Cons c cs)
  from Cons.prems have head: "match_at (drop 0 (c # cs)) = None" by blast
  have "match_at (drop j cs) = None" for j
    using Cons.prems [rule_format, of "Suc j"] by simp
  with Cons.IH head show ?case by simp
qed

lemma group_memory_key:
  assumes "group_memory it lm = Inr lm'"
  shows "\<exists>old. map_of lm' (extract_location (memory it)) = Some (old @ [memory it])"
  using group_memory_cases [OF assms]
proof (elim disjE conjE exE)
  assume "map_of lm (extract_location (memory it)) = None"
     and "lm' = lm @ [(extract_location (memory it), [memory it])]"
  then have "map_of lm' (extract_location (memory it)) = Some ([] @ [memory it])"
    by (simp add: map_of_append map_add_def)
  then show ?thesis by blast
next
  fix l1 arr l2
  assume "map_of l1 (extract_location (memory it)) = None"
     and "lm' = l1 @ (extract_location (memory it), arr @ [memory it]) # l2"
  then have "map_of lm' (extract_location (memory it)) = Some (arr @ [memory it])"
    by (simp add: map_of_append map_add_def)
  then show ?thesis by blast
qed

text \<open>
  C2, amended: the key under which build-spatial-map groups an entry is the first
  group of the first match of the pattern in the entry's text, exactly as matched and
  not trimmed: with \<open>i\<close> the first position where the pattern matches, the key is the
  longest run of code units other than line feed that starts ten code units after
  \<open>i\<close>; when the pattern matches nowhere the key is "unknown"; and the entry is
  appended to the list of that key.
\<close>

theorem location_key_is_first_group:
  "(pattern_matches_at m i \<and> (\<forall>j<i. \<not> pattern_matches_at m j)
      \<longrightarrow> extract_location m = takeWhile (\<lambda>c. c \<noteq> CHR 0x0A) (drop (i + 10) m))
   \<and> ((\<forall>j. \<not> pattern_matches_at m j) \<longrightarrow> extract_location m = ''unknown'')
   \<and> (group_memory \<lparr>memory = m\<rparr> lm = Inr lm'
      \<longrightarrow> (\<exists>old. map_of lm' (extract_location m) = Some (old @ [m])))"
proof (intro conjI impI)
  assume a: "pattern_matches_at m i \<and> (\<forall>j<i. \<not> pattern_matches_at m j)"
  let ?g = "takeWhile (\<lambda>c. c \<noteq> CHR 0x0A) (drop (i + 10) m)"
  from a have here: "match_at (drop i m) = Some ?g"
    by (simp add: match_at_position)
  from a have before: "\<forall>j<i. match_at (drop j m) = None"
    by (simp add: match_at_position)
  from a have "i + 10 < length m" "m ! (i + 10) \<noteq> CHR 0x0A"
    unfolding pattern_matches_at_def by simp_all
  then have "?g \<noteq> []"
    by (simp add: takeWhile_eq_Nil_iff hd_drop_conv_nth)
  with location_match_first [OF here before] show "extract_location m = ?g"
    by (simp add: extract_location_def)
next
  assume "\<forall>j. \<not> pattern_matches_at m j"
  then have "\<forall>j. match_at (drop j m) = None"
    by (simp add: match_at_position)
  from location_match_none [OF this] show "extract_location m = ''unknown''"
    by (simp add: extract_location_def)
next
  assume "group_memory \<lparr>memory = m\<rparr> lm = Inr lm'"
  from group_memory_key [OF this]
  show "\<exists>old. map_of lm' (extract_location m) = Some (old @ [m])"
    by simp
qed

theorem location_key_is_first_group_witness:
  "pattern_matches_at ''Seen: x\<newline>LOCATION: bay 2\<newline>Location: z'' 8
   \<and> extract_location ''Seen: x\<newline>LOCATION: bay 2\<newline>Location: z'' = ''bay 2''
   \<and> extract_location ''baz'' = ''unknown''
   \<and> group_memory \<lparr>memory = ''Seen: x\<newline>LOCATION: bay 2\<newline>Location: z''\<rparr> []
       = Inr [(''bay 2'', [''Seen: x\<newline>LOCATION: bay 2\<newline>Location: z''])]
   \<and> (\<exists>old. map_of [(''bay 2'', [''Seen: x\<newline>LOCATION: bay 2\<newline>Location: z''])]
               (extract_location ''Seen: x\<newline>LOCATION: bay 2\<newline>Location: z'')
             = Some (old @ [''Seen: x\<newline>LOCATION: bay 2\<newline>Location: z'']))"
proof -
  let ?m = "''Seen: x\<newline>LOCATION: bay 2\<newline>Location: z''"
  have here: "pattern_matches_at ?m 8"
    by code_simp
  have before: "\<forall>j<8. \<not> pattern_matches_at ?m j"
    by code_simp
  have nowhere: "\<forall>j. \<not> pattern_matches_at ''baz'' j"
    by (simp add: pattern_matches_at_def)
  have grouped: "group_memory \<lparr>memory = ?m\<rparr> [] = Inr [(''bay 2'', [?m])]"
    by code_simp
  have run: "takeWhile (\<lambda>c. c \<noteq> CHR 0x0A) (drop (8 + 10) ?m) = ''bay 2''"
    by simp
  from location_key_is_first_group [of ?m 8 "[]" "[(''bay 2'', [?m])]"] here before
  have "extract_location ?m = takeWhile (\<lambda>c. c \<noteq> CHR 0x0A) (drop (8 + 10) ?m)"
    by blast
  from this run have key: "extract_location ?m = ''bay 2''"
    by (rule trans)
  from location_key_is_first_group [of "''baz''" 0 "[]" "[]"] nowhere
  have unknown: "extract_location ''baz'' = ''unknown''"
    by blast
  from location_key_is_first_group [of ?m 8 "[]" "[(''bay 2'', [?m])]"] grouped
  have bucket: "\<exists>old. map_of [(''bay 2'', [?m])] (extract_location ?m) = Some (old @ [?m])"
    by blast
  show ?thesis
    by (intro conjI) (rule here key unknown grouped bucket)+
qed

text \<open>
  C2 as stated fails: the key is the group as matched, white space included; the
  source does not trim it.
\<close>

theorem location_key_not_trimmed_counterexample:
  "extract_location ''Seen: x\<newline>Location:  dock 4 \<newline>Location: z'' = '' dock 4 ''
   \<and> spec_location_key ''Seen: x\<newline>Location:  dock 4 \<newline>Location: z'' = ''dock 4''
   \<and> group_memory \<lparr>memory = ''Seen: x\<newline>Location:  dock 4 \<newline>Location: z''\<rparr> []
       = Inr [('' dock 4 '', [''Seen: x\<newline>Location:  dock 4 \<newline>Location: z''])]"
  by code_simp


subsection \<open>A listing longer than one page\<close>

lemma short_text_unknown: "length m < 11 \<Longrightarrow> extract_location m = ''unknown''"
proof -
  assume "length m < 11"
  then have "\<forall>j. match_at (drop j m) = None"
    by (simp add: match_at_position pattern_matches_at_def)
  from location_match_none [OF this] show ?thesis
    by (simp add: extract_location_def)
qed

lemma forEach_memory_unknown_bucket:
  "\<forall>it\<in>set items. extract_location (memory it) = ''unknown''
     \<Longrightarrow> forEach_memory items [(''unknown'', ms)] = Inr [(''unknown'', ms @ map memory items)]"
  by (induction items arbitrary: ms) (simp_all add: group_memory_def get_property_def)

lemma forEach_memory_unknown:
  assumes "items \<noteq> []" and "\<forall>it\<in>set items. extract_location (memory it) = ''unknown''"
  shows "forEach_memory items [] = Inr [(''unknown'', map memory items)]"
proof -
  from assms(1) obtain it rest where items: "items = it # rest"
    by (cases items) auto
  with assms(2) have "group_memory it [] = Inr [(''unknown'', [memory it])]"
    by (simp add: group_memory_def get_property_def object_prototype_keys_def)
  with items assms(2) forEach_memory_unknown_bucket [of rest "[memory it]"] show ?thesis
    by simp
qed

theorem spatial_map_single_page_witness:
  "fst (build_spatial_map
            (fake_client (Inr ()) (Inr [])
                (\<lambda>u. map (\<lambda>n. \<lparr>memory = [char_of n]\<rparr>) [48..<100])
              :: (request list, nat) memory_client)
            ''navigation-robot'' \<lparr>service = [], console = []\<rparr>)
       = Inr (SpatialReport
            \<lparr>spatialMap = [(''unknown'', map (\<lambda>n. [char_of n]) [48..<98])],
             locationCount = 1, totalObservations = 50\<rparr>)
   \<and> service (snd (build_spatial_map
            (fake_client (Inr ()) (Inr [])
                (\<lambda>u. map (\<lambda>n. \<lparr>memory = [char_of n]\<rparr>) [48..<100])
              :: (request list, nat) memory_client)
            ''navigation-robot'' \<lparr>service = [], console = []\<rparr>))
       = [GetAllRequest ''navigation-robot'' 1 50]
   \<and> mset (concat (map snd [(''unknown'', map (\<lambda>n. [char_of n]) [48..<98])]))
       = mset (map memory (take 50 (map (\<lambda>n. \<lparr>memory = [char_of n]\<rparr>) [48..<100])))"
proof -
  let ?store = "map (\<lambda>n. \<lparr>memory = [char_of n]\<rparr>) [48..<100]"
  let ?mc = "fake_client (Inr ()) (Inr []) (\<lambda>u. ?store) :: (request list, nat) memory_client"
  let ?w = "\<lparr>service = [] :: request list, console = []\<rparr>"
  let ?r = "\<lparr>spatialMap = [(''unknown'', map (\<lambda>n. [char_of n]) [48..<98])],
             locationCount = 1, totalObservations = 50\<rparr>"
  have pg: "paginates ?mc (\<lambda>s u. ?store)"
    by (simp add: paginates_def fake_client_def)
  have page: "take 50 ?store = map (\<lambda>n. \<lparr>memory = [char_of n]\<rparr>) [48..<98]"
    by (simp add: take_map del: upt_rec_numeral)
  have loop: "forEach_memory (map (\<lambda>n. \<lparr>memory = [char_of n]\<rparr>) [48..<98]) []
                = Inr [(''unknown'', map (\<lambda>n. [char_of n]) [48..<98])]"
    using forEach_memory_unknown [of "map (\<lambda>n. \<lparr>memory = [char_of n]\<rparr>) [48..<98]"]
    by (simp add: short_text_unknown comp_def del: upt_rec_numeral)
  have ok: "fst (build_spatial_map ?mc ''navigation-robot'' ?w) = Inr (SpatialReport ?r)"
    by (simp add: build_spatial_map_def fake_client_def page loop del: upt_rec_numeral)
  have sent: "snd (mc_get_all ?mc ''navigation-robot'' 1 50 (service ?w))
                = [GetAllRequest ''navigation-robot'' 1 50]"
    by (simp add: fake_client_def)
  from spatial_map_single_page [of ?mc "''navigation-robot''" ?w "\<lambda>s u. ?store"] pg ok
  have "service (snd (build_spatial_map ?mc ''navigation-robot'' ?w))
          = snd (mc_get_all ?mc ''navigation-robot'' 1 50 (service ?w))
        \<and> mset (concat (map snd (spatialMap ?r))) = mset (map memory (take 50 ?store))"
    by blast
  with sent have "service (snd (build_spatial_map ?mc ''navigation-robot'' ?w))
          = [GetAllRequest ''navigation-robot'' 1 50]"
     and "mset (concat (map snd [(''unknown'', map (\<lambda>n. [char_of n]) [48..<98])]))
          = mset (map memory (take 50 ?store))"
    by simp_all
  with ok show ?thesis
    by (intro conjI)
qed


end
